theory Spec2Isabelle
  imports Main "HOL-Library.Sublist" "HOL-Library.List_Lexorder" "HOL-Library.Char_ord"
begin

section \<open>Acx Shell: the \<open>/protect\<close> request handler of \<open>app.py\<close>\<close>

text \<open>
  The handler \<open>protect_apk\<close> of \<open>src/app.py\<close> is embedded as a function from an
  environment (everything the handler asks of the operating system), a parsed request and
  a world (the state the handler changes) to a response and the new world. Every
  \<open>return\<close> and every \<open>except\<close> clause of the source is a branch of the model.

  Strings are lists of \<open>char\<close>; a \<open>char\<close> stands for the code point of the same number,
  so the model covers text whose code points are below 256. Uploaded and produced file
  contents are lists of \<open>char\<close> read as bytes.
\<close>

subsection \<open>Python string operations\<close>

type_synonym bytes = "char list"

text \<open>\<open>str.startswith\<close> and \<open>str.endswith\<close>; with a tuple argument, any member may match.\<close>

definition startswith :: "string \<Rightarrow> string \<Rightarrow> bool" where
  "startswith s p = prefix p s"

definition endswith :: "string \<Rightarrow> string \<Rightarrow> bool" where
  "endswith s e = suffix e s"

definition endswith_any :: "string \<Rightarrow> string list \<Rightarrow> bool" where
  "endswith_any s es = list_ex (endswith s) es"

text \<open>\<open>sub in s\<close> for strings.\<close>

fun contains :: "string \<Rightarrow> string \<Rightarrow> bool" where
  "contains [] sub = (sub = [])"
| "contains (c # cs) sub = (prefix sub (c # cs) \<or> contains cs sub)"

text \<open>
  \<open>str.lower\<close> on code points below 256: the letters A to Z and the Latin-1 capitals
  (192 to 222 without the multiplication sign 215) move up by 32.
\<close>

definition lower_char :: "char \<Rightarrow> char" where
  "lower_char c =
     (let n = (of_char c :: nat)
      in if (65 \<le> n \<and> n \<le> 90) \<or> (192 \<le> n \<and> n \<le> 222 \<and> n \<noteq> 215)
         then char_of (n + 32) else c)"

definition lower :: "string \<Rightarrow> string" where
  "lower s = map lower_char s"

text \<open>
  \<open>str.strip()\<close> removes leading and trailing white space; below 256 the white-space
  code points are 9 to 13, 28 to 32, 133 and 160.
\<close>

definition isspace :: "char \<Rightarrow> bool" where
  "isspace c =
     (let n = (of_char c :: nat)
      in (9 \<le> n \<and> n \<le> 13) \<or> (28 \<le> n \<and> n \<le> 32) \<or> n = 133 \<or> n = 160)"

definition strip :: "string \<Rightarrow> string" where
  "strip s = rev (dropWhile isspace (rev (dropWhile isspace s)))"

text \<open>\<open>str(n)\<close> for a natural number.\<close>

definition digit :: "nat \<Rightarrow> char" where
  "digit d = char_of (48 + d)"

fun str_nat :: "nat \<Rightarrow> string" where
  "str_nat n = (if n < 10 then [digit n] else str_nat (n div 10) @ [digit (n mod 10)])"

declare str_nat.simps [simp del]

text \<open>
  \<open>f'{n / (1024*1024):.2f}'\<close>: the quotient by \<open>2 ^ 20\<close> is exact in binary floating
  point (for \<open>n\<close> below \<open>2 ^ 53\<close>), and the format rounds it to two decimals, ties to even.
\<close>

definition round_half_even :: "nat \<Rightarrow> nat \<Rightarrow> nat" where
  "round_half_even a b =
     (let q = a div b; r = a mod b
      in if 2 * r > b \<or> (2 * r = b \<and> odd q) then q + 1 else q)"

definition fmt_mb :: "nat \<Rightarrow> string" where
  "fmt_mb n =
     (let h = round_half_even (n * 100) (1024 * 1024)
      in str_nat (h div 100) @ ''.'' @ [digit (h mod 100 div 10), digit (h mod 10)])"

text \<open>\<open>os.path.join\<close> of two components (POSIX).\<close>

definition os_path_join :: "string \<Rightarrow> string \<Rightarrow> string" where
  "os_path_join a b =
     (if startswith b ''/'' then b
      else if a = [] \<or> endswith a ''/'' then a @ b
      else a @ ''/'' @ b)"

subsection \<open>Requests and responses\<close>

record upload =
  filename :: string
  content :: bytes

text \<open>
  \<open>apk_file\<close> is \<open>request.files['apk_file']\<close> (\<open>None\<close> when the part is absent) and
  \<open>form\<close> is \<open>request.form\<close>, both as the framework parses them out of the body on first
  access. \<open>content_length\<close> is \<open>request.content_length\<close>, the length of the body that the
  caller declares in the \<open>Content-Length\<close> header; a body holds the file, the form fields
  and the multipart framing around them, so that of a caller who declares what is sent
  is longer than the file.
\<close>

record request =
  apk_file :: "upload option"
  form :: "string \<rightharpoonup> string"
  content_length :: nat

text \<open>
  \<open>jsonify(body), status\<close> is \<open>Json status body\<close>; the \<open>Response\<close> built from the
  protected file is \<open>Download data headers\<close>, with status 200.
\<close>

datatype response =
    Json nat "(string \<times> string) list"
  | Download bytes "(string \<times> string) list"

fun status_code :: "response \<Rightarrow> nat" where
  "status_code (Json s b) = s"
| "status_code (Download d h) = 200"

subsection \<open>Validation (line 34, lines 52 to 97)\<close>

text \<open>
  Line 34 sets the \<open>MAX_CONTENT_LENGTH\<close> of the framework. With it the framework refuses
  to parse a body whose declared length is above the limit: the first access to
  \<open>request.files\<close>, on line 53, raises \<open>RequestEntityTooLarge\<close>. Line 53 is inside the
  outermost \<open>try\<close>, and the handler registers nothing for this exception, so the
  outermost \<open>except Exception\<close> (lines 566 to 583) answers, with status 500 and the
  text of the exception; \<open>request_entity_too_large\<close> is that text, the status code, the
  name and the description that the framework gives the exception.
\<close>

definition MAX_CONTENT_LENGTH :: nat where
  "MAX_CONTENT_LENGTH = 150 * 1024 * 1024"

definition request_entity_too_large :: string where
  "request_entity_too_large =
     ''413 Request Entity Too Large: The data value transmitted exceeds the capacity limit.''"

definition server_error :: "string \<Rightarrow> response" where
  "server_error msg =
     Json 500 [(''error'', ''Server error: '' @ (if msg = [] then ''Unknown error'' else msg))]"

definition max_size :: nat where
  "max_size = 150 * 1024 * 1024"

definition no_file_provided :: response where
  "no_file_provided = Json 400 [(''error'', ''No APK file provided'')]"

definition no_file_selected :: response where
  "no_file_selected = Json 400 [(''error'', ''No file selected'')]"

definition invalid_file_type :: response where
  "invalid_file_type =
     Json 400 [(''error'', ''Invalid file type. Only APK and AAB files are supported'')]"

definition file_too_large :: "nat \<Rightarrow> response" where
  "file_too_large n =
     Json 400 [(''error'', ''File size ('' @ fmt_mb n @
       '' MB) exceeds maximum allowed size (150 MB) for free tier. Please use a smaller APK file.'')]"

definition already_protected :: response where
  "already_protected =
     Json 400 [(''error'',
       ''This file appears to be already protected. Please upload the original APK file, not the protected version.'')]"

text \<open>
  The refusal of the framework, then the checks of the handler in the order of the
  source; \<open>file_size_bytes\<close> is what \<open>file.tell()\<close> reports after seeking to the end of
  the received stream, the number of bytes received. \<open>Inl\<close> is a response that ends the
  request here, \<open>Inr\<close> the file that goes on to staging.
\<close>

definition validate :: "request \<Rightarrow> response + upload" where
  "validate req =
     (if MAX_CONTENT_LENGTH < content_length req
        then Inl (server_error request_entity_too_large)
      else
        case apk_file req of
          None \<Rightarrow> Inl no_file_provided
        | Some file \<Rightarrow>
            if filename file = [] then Inl no_file_selected
            else if \<not> endswith_any (lower (filename file)) [''.apk'', ''.aab'']
              then Inl invalid_file_type
            else
              let file_size_bytes = length (content file)
              in if file_size_bytes > max_size then Inl (file_too_large file_size_bytes)
                 else if startswith (filename file) ''protected_'' then Inl already_protected
                 else Inr file)"

subsection \<open>The operating system as the handler sees it\<close>

text \<open>
  A directory listing is a list of entries in the order the operating system returns them
  (the order of \<open>os.scandir\<close>); a file carries its content.
\<close>

datatype tree = File string bytes | Dir string "tree list"

text \<open>
  What a command does when it is started: it exits after some time with a return code and
  its two output streams, it never exits, it cannot be found, or starting or reading it
  raises another exception (the string is \<open>str(e)\<close>).
\<close>

datatype behaviour =
    Exits nat int string string
  | Hangs
  | NotFound string
  | Raises string

datatype run_result =
    Completed int string string
  | TimeoutExpired
  | FileNotFoundError string
  | OtherException string

datatype read_failure = IOError string | OtherReadError string

datatype level = INFO | WARNING | ERROR

text \<open>
  The environment answers every question the handler asks of the operating system and of
  the library: environment variables, the existence of paths the handler does not create,
  the random names \<open>tempfile.mkdtemp\<close> tries, \<open>werkzeug\<close>'s \<open>secure_filename\<close>, what the
  four commands do, what the tool leaves in the output directory, and which of the
  remaining file operations raise (\<open>Some\<close> of the exception's text).
\<close>

record environment =
  os_name :: string
  module_dir :: string
  JAVA_HOME :: "string option"
  ANDROID_HOME :: "string option"
  ANDROID_SDK_ROOT :: "string option"
  tmp_exists :: bool
  gettempdir :: string
  mkdtemp_names :: "string list"
  secure_filename :: "string \<Rightarrow> string"
  path_exists :: "string \<Rightarrow> bool"
  makedirs_error :: "string option"
  save_error :: "string option"
  java_version_run :: behaviour
  tool_run :: behaviour
  tool_output :: "tree list"
  listdir_error :: "string option"
  build_tools :: "(string \<times> bool) list"
  apksigner_run :: behaviour
  jarsigner_run :: behaviour
  getsize_error :: "string option"
  read_error :: "read_failure option"

text \<open>
  The world is what the handler changes: the working directory of the process, the
  directories that exist, the entries of the project root (the directory of \<open>app.py\<close>),
  the number of child processes alive, the argument vector of every
  \<open>subprocess.run\<close> so far, and the log records of the signature check (level and
  message template; the other \<open>logger\<close> calls neither branch nor raise and are left out).
\<close>

record world =
  cwd :: string
  dirs :: "string list"
  root_items :: "tree list"
  children :: nat
  spawned :: "string list list"
  logged :: "(level \<times> string) list"

definition logmsg :: "level \<Rightarrow> string \<Rightarrow> world \<Rightarrow> world" where
  "logmsg l m w = w\<lparr>logged := logged w @ [(l, m)]\<rparr>"

text \<open>
  \<open>subprocess.run(argv, capture_output=True, text=True, timeout=t)\<close>: the child is
  started and waited for; when the timeout expires the library kills the child, waits for
  it and raises \<open>TimeoutExpired\<close>. A command that cannot be started leaves no child.
\<close>

definition start_child :: "string list \<Rightarrow> world \<Rightarrow> world" where
  "start_child argv w = w\<lparr>children := children w + 1, spawned := spawned w @ [argv]\<rparr>"

definition reap_child :: "world \<Rightarrow> world" where
  "reap_child w = w\<lparr>children := children w - 1\<rparr>"

definition subprocess_run ::
  "nat \<Rightarrow> string list \<Rightarrow> behaviour \<Rightarrow> world \<Rightarrow> run_result \<times> world" where
  "subprocess_run timeout argv b w =
     (case b of
        NotFound m \<Rightarrow> (FileNotFoundError m, w\<lparr>spawned := spawned w @ [argv]\<rparr>)
      | Raises m \<Rightarrow> (OtherException m, reap_child (start_child argv w))
      | Hangs \<Rightarrow> (TimeoutExpired, reap_child (start_child argv w))
      | Exits d rc out err \<Rightarrow>
          if timeout < d then (TimeoutExpired, reap_child (start_child argv w))
          else (Completed rc out err, reap_child (start_child argv w)))"

text \<open>
  \<open>tempfile.mkdtemp(prefix, dir)\<close> tries the candidate names in turn and creates the
  first directory that does not exist yet; with no name left it raises.
\<close>

fun mkdtemp :: "string \<Rightarrow> string \<Rightarrow> string list \<Rightarrow> string list \<Rightarrow> string option" where
  "mkdtemp pre dir [] existing = None"
| "mkdtemp pre dir (n # ns) existing =
     (let p = os_path_join dir (pre @ n)
      in if p \<in> set existing then mkdtemp pre dir ns existing else Some p)"

text \<open>\<open>shutil.rmtree(d, ignore_errors=True)\<close> removes \<open>d\<close> and everything below it.\<close>

definition below :: "string \<Rightarrow> string \<Rightarrow> bool" where
  "below d p = (p = d \<or> startswith p (d @ ''/''))"

definition rmtree :: "string \<Rightarrow> world \<Rightarrow> world" where
  "rmtree d w = w\<lparr>dirs := filter (\<lambda>p. \<not> below d p) (dirs w)\<rparr>"

text \<open>
  \<open>os.walk(top)\<close>, top down: the triple of a directory (its path, the names of its
  subdirectories, its files) comes before the triples of its subdirectories, which follow
  in listing order.
\<close>

definition dirnames :: "tree list \<Rightarrow> string list" where
  "dirnames entries = concat (map (\<lambda>t. case t of Dir n cs \<Rightarrow> [n] | File n b \<Rightarrow> []) entries)"

definition nondirs :: "tree list \<Rightarrow> (string \<times> bytes) list" where
  "nondirs entries = concat (map (\<lambda>t. case t of File n b \<Rightarrow> [(n, b)] | Dir n cs \<Rightarrow> []) entries)"

fun subwalks :: "string \<Rightarrow> tree list \<Rightarrow> (string \<times> string list \<times> (string \<times> bytes) list) list" where
  "subwalks root [] = []"
| "subwalks root (File n b # ts) = subwalks root ts"
| "subwalks root (Dir n cs # ts) =
     (os_path_join root n, dirnames cs, nondirs cs) # subwalks (os_path_join root n) cs
       @ subwalks root ts"

definition os_walk :: "string \<Rightarrow> tree list \<Rightarrow> (string \<times> string list \<times> (string \<times> bytes) list) list" where
  "os_walk root entries = (root, dirnames entries, nondirs entries) # subwalks root entries"

subsection \<open>Staging and the Java check (lines 99 to 162)\<close>

definition temp_base :: "environment \<Rightarrow> string" where
  "temp_base env = (if tmp_exists env then ''/tmp'' else gettempdir env)"

definition DPT_JAR_PATH :: "environment \<Rightarrow> string" where
  "DPT_JAR_PATH env = os_path_join (os_path_join (module_dir env) ''executable'') ''dpt.jar''"

text \<open>
  The command of a JDK tool: \<open>$JAVA_HOME/bin/<exe>\<close> when \<open>JAVA_HOME\<close> is set and the
  file exists, the bare name otherwise (with \<open>.exe\<close> on Windows).
\<close>

definition jdk_command :: "environment \<Rightarrow> string \<Rightarrow> string" where
  "jdk_command env name =
     (let exe = (if os_name env = ''nt'' then name @ ''.exe'' else name)
      in case JAVA_HOME env of
           None \<Rightarrow> exe
         | Some java_path \<Rightarrow>
             if java_path = [] then exe
             else let c = os_path_join (os_path_join java_path ''bin'') exe
                  in if path_exists env c then c else exe)"

definition java_missing :: "string \<Rightarrow> response" where
  "java_missing details =
     Json 500 [(''error'', ''Java JDK 21 is not installed or not found in PATH''),
               (''details'', details)]"

subsection \<open>The command line (lines 164 to 207)\<close>

definition config_file :: "environment \<Rightarrow> string" where
  "config_file env =
     os_path_join (os_path_join (module_dir env) ''executable'')
       ''dpt-protect-config-template.json''"

definition exclude_abis :: "(string \<rightharpoonup> string) \<Rightarrow> string" where
  "exclude_abis fm = strip (case fm ''exclude_abis'' of None \<Rightarrow> [] | Some v \<Rightarrow> v)"

text \<open>The list \<open>cmd\<close> grows by one \<open>append\<close> or \<open>extend\<close> after the other, as in the source.\<close>

definition build_cmd ::
  "environment \<Rightarrow> (string \<rightharpoonup> string) \<Rightarrow> string \<Rightarrow> string \<Rightarrow> string \<Rightarrow> string list" where
  "build_cmd env fm java_cmd input_file_path output_dir =
     (let cmd = [java_cmd, ''-jar'', DPT_JAR_PATH env, ''-f'', input_file_path, ''-o'', output_dir];
          cmd = (if fm ''debug'' = Some ''true'' then cmd @ [''--debug''] else cmd);
          cmd = (if fm ''disable_acf'' = Some ''true'' then cmd @ [''--disable-acf''] else cmd);
          cmd = (if fm ''dump_code'' = Some ''true'' then cmd @ [''--dump-code''] else cmd);
          cmd = (if fm ''keep_classes'' = Some ''true'' then cmd @ [''-K''] else cmd);
          cmd = (if fm ''noisy_log'' = Some ''true'' then cmd @ [''--noisy-log''] else cmd);
          cmd = (if fm ''smaller'' = Some ''true'' then cmd @ [''-S''] else cmd);
          cmd = (if exclude_abis fm \<noteq> [] then cmd @ [''-e'', exclude_abis fm] else cmd);
          cmd = (if fm ''use_protect_config'' = Some ''true''
                 then (if path_exists env (config_file env)
                       then cmd @ [''-c'', config_file env] else cmd)
                 else cmd)
      in cmd)"

text \<open>What the handler keeps of a staged job.\<close>

record job =
  temp_dir :: string
  input_file_path :: string
  output_dir :: string
  cmd_of :: "string list"
  original_cwd :: string

text \<open>
  Everything from \<open>mkdtemp\<close> to \<open>os.chdir(temp_dir)\<close>. \<open>Inl\<close> is a response returned
  before the tool is run: an exception of staging reaches the outermost handler, a failed
  Java check returns its own response. Neither removes the directory just created.
\<close>

definition java_check ::
  "environment \<Rightarrow> request \<Rightarrow> string \<Rightarrow> string \<Rightarrow> string \<Rightarrow> world \<Rightarrow> (response + job) \<times> world" where
  "java_check env req td inp out w =
     (let java_cmd = jdk_command env ''java''
      in case subprocess_run 5 [java_cmd, ''-version''] (java_version_run env) w of
           (Completed rc out_text err_text, w') \<Rightarrow>
             (Inr \<lparr>temp_dir = td, input_file_path = inp, output_dir = out,
                   cmd_of = build_cmd env (form req) java_cmd inp out,
                   original_cwd = cwd w'\<rparr>,
              w'\<lparr>cwd := td\<rparr>)
         | (TimeoutExpired, w') \<Rightarrow>
             (Inl (java_missing
               ''Please ensure Java JDK 21 is installed and JAVA_HOME is set correctly.''), w')
         | (FileNotFoundError m, w') \<Rightarrow>
             (Inl (java_missing
               ''Please ensure Java JDK 21 is installed and JAVA_HOME is set correctly.''), w')
         | (OtherException m, w') \<Rightarrow>
             (Inl (java_missing (''Error: '' @ m)), w'))"

definition stage ::
  "environment \<Rightarrow> request \<Rightarrow> upload \<Rightarrow> string \<Rightarrow> world \<Rightarrow> (response + job) \<times> world" where
  "stage env req file td w =
     (let inp = os_path_join td (secure_filename env (filename file));
          out = os_path_join td ''output''
      in if makedirs_error env \<noteq> None
         then (Inl (server_error (the (makedirs_error env))), w)
         else
           let w' = w\<lparr>dirs := dirs w @ [out]\<rparr>
           in if save_error env \<noteq> None
              then (Inl (server_error (the (save_error env))), w')
              else java_check env req td inp out w')"

definition pre_invoke ::
  "environment \<Rightarrow> request \<Rightarrow> upload \<Rightarrow> world \<Rightarrow> (response + job) \<times> world" where
  "pre_invoke env req file w =
     (case mkdtemp ''apk_protect_'' (temp_base env) (mkdtemp_names env) (dirs w) of
        None \<Rightarrow>
          (Inl (server_error ''[Errno 17] No usable temporary directory name found''), w)
      | Some td \<Rightarrow> stage env req file td (w\<lparr>dirs := dirs w @ [td]\<rparr>))"

subsection \<open>Finding the output (lines 247 to 268)\<close>

text \<open>
  The loop over \<open>os.walk(output_dir)\<close>: every file whose name ends in one of the two
  extensions, as its joined path, in the order of the walk. The content goes along with
  the path so that opening the path later reads it.
\<close>

definition find_output_files :: "string \<Rightarrow> tree list \<Rightarrow> (string \<times> bytes) list" where
  "find_output_files out entries =
     concat (map (\<lambda>(root, ds, files).
        map (\<lambda>(f, b). (os_path_join root f, b))
          (filter (\<lambda>(f, b). endswith_any f [''.apk'', ''.aab'']) files))
       (os_walk out entries))"

subsection \<open>The signature check (lines 271 to 349)\<close>

text \<open>\<open>os.environ.get('ANDROID_HOME') or os.environ.get('ANDROID_SDK_ROOT')\<close>.\<close>

definition android_home :: "environment \<Rightarrow> string option" where
  "android_home env =
     (case ANDROID_HOME env of
        None \<Rightarrow> ANDROID_SDK_ROOT env
      | Some h \<Rightarrow> if h = [] then ANDROID_SDK_ROOT env else Some h)"

text \<open>
  The search for \<open>apksigner\<close> below the newest \<open>build-tools\<close> version, the greatest name
  in the order of strings. \<open>Inl\<close> is an exception of \<open>os.listdir\<close>.
\<close>

definition newest_apksigner :: "environment \<Rightarrow> string \<Rightarrow> string option" where
  "newest_apksigner env apksigner_path =
     (let bt = map fst (filter snd (build_tools env))
      in if bt = [] then None
         else
           let latest_version = last (sort bt);
               c = os_path_join (os_path_join apksigner_path latest_version)
                     (if os_name env = ''nt'' then ''apksigner.bat'' else ''apksigner'')
           in if path_exists env c then Some c else None)"

definition find_apksigner :: "environment \<Rightarrow> string + string option" where
  "find_apksigner env =
     (case android_home env of
        None \<Rightarrow> Inr None
      | Some h \<Rightarrow>
          if h = [] then Inr None
          else
            let apksigner_path = os_path_join h ''build-tools''
            in if \<not> path_exists env apksigner_path then Inr None
               else if listdir_error env \<noteq> None then Inl (the (listdir_error env))
               else Inr (newest_apksigner env apksigner_path))"

definition apksigner_attempt :: "environment \<Rightarrow> string \<Rightarrow> string \<Rightarrow> world \<Rightarrow> bool \<times> world" where
  "apksigner_attempt env c output_file w =
     (case subprocess_run 30 [c, ''verify'', ''--print-certs'', output_file] (apksigner_run env) w of
        (Completed rc out_text err_text, w') \<Rightarrow>
          if rc = 0 then (True, logmsg INFO ''APK signature verified using apksigner'' w')
          else (False, logmsg WARNING ''APK signature verification failed: {verify_result.stderr}'' w')
      | (TimeoutExpired, w') \<Rightarrow> (False, logmsg WARNING ''Could not verify with apksigner: {e}'' w')
      | (FileNotFoundError m, w') \<Rightarrow> (False, logmsg WARNING ''Could not verify with apksigner: {e}'' w')
      | (OtherException m, w') \<Rightarrow> (False, logmsg WARNING ''Could not verify with apksigner: {e}'' w'))"

definition jarsigner_attempt :: "environment \<Rightarrow> string \<Rightarrow> string \<Rightarrow> world \<Rightarrow> bool \<times> world" where
  "jarsigner_attempt env c output_file w =
     (case subprocess_run 30 [c, ''-verify'', ''-verbose'', ''-certs'', output_file] (jarsigner_run env) w of
        (Completed rc out_text err_text, w') \<Rightarrow>
          if rc = 0 \<and> contains (lower out_text) ''jar verified''
          then (True, logmsg INFO ''APK signature verified using jarsigner'' w')
          else (False, logmsg WARNING ''APK signature verification failed or APK is not signed'' w')
      | (TimeoutExpired, w') \<Rightarrow> (False, logmsg WARNING ''Could not verify with jarsigner: {e}'' w')
      | (FileNotFoundError m, w') \<Rightarrow> (False, logmsg WARNING ''Could not verify with jarsigner: {e}'' w')
      | (OtherException m, w') \<Rightarrow> (False, logmsg WARNING ''Could not verify with jarsigner: {e}'' w'))"

definition signature_warning :: "world \<Rightarrow> world" where
  "signature_warning w =
     foldl (\<lambda>w m. logmsg WARNING m w) w
       [replicate 60 (CHR ''=''),
        ''APK SIGNATURE WARNING'',
        replicate 60 (CHR ''=''),
        ''The protected APK may not be properly signed.'',
        ''This can cause 'package appears to be invalid' error on Android.'',
        ''dpt.jar should sign the APK by default, but verification failed.'',
        replicate 60 (CHR ''='')]"

definition verify_signature :: "environment \<Rightarrow> string \<Rightarrow> world \<Rightarrow> world" where
  "verify_signature env output_file w =
     (let w0 = logmsg INFO ''Verifying APK signature...'' w
      in case find_apksigner env of
           Inl m \<Rightarrow>
             logmsg WARNING ''Continuing anyway - APK should be signed by dpt.jar''
               (logmsg WARNING ''Could not verify APK signature: {e}'' w0)
         | Inr apksigner_cmd \<Rightarrow>
             let jarsigner_cmd = jdk_command env ''jarsigner'';
                 (valid1, w1) =
                   (case apksigner_cmd of
                      None \<Rightarrow> (False, w0)
                    | Some c \<Rightarrow>
                        if path_exists env c then apksigner_attempt env c output_file w0
                        else (False, w0));
                 (valid2, w2) =
                   (if \<not> valid1 \<and> jarsigner_cmd \<noteq> []
                    then jarsigner_attempt env jarsigner_cmd output_file w1
                    else (valid1, w1))
             in if \<not> valid2 then signature_warning w2
                else logmsg INFO ''APK is properly signed and ready for installation'' w2)"

subsection \<open>Sweeping the project root (lines 354 to 382, 423 to 440, 513 to 521, 555 to 561)\<close>

text \<open>
  A directory of the project root looks like a dump of the tool when its name has a dot,
  is not \<open>venv\<close> and does not start with a dot. After a successful run such a directory is
  removed when a file ending in \<open>.json\<close> lies somewhere below it; the handlers of a
  timeout and of an exception remove it without looking inside.
\<close>

definition has_json :: "string \<Rightarrow> tree list \<Rightarrow> bool" where
  "has_json item_path entries =
     list_ex (\<lambda>(root, ds, files). list_ex (\<lambda>(f, b). endswith f ''.json'') files)
       (os_walk item_path entries)"

fun dump_folder :: "bool \<Rightarrow> tree \<Rightarrow> bool" where
  "dump_folder look_inside (File n b) = False"
| "dump_folder look_inside (Dir n cs) =
     (CHR ''.'' \<in> set n \<and> n \<noteq> ''venv'' \<and> \<not> startswith n ''.''
      \<and> (if look_inside then has_json n cs else True))"

definition sweep_root :: "bool \<Rightarrow> world \<Rightarrow> world" where
  "sweep_root look_inside w =
     w\<lparr>root_items := filter (\<lambda>t. \<not> dump_folder look_inside t) (root_items w)\<rparr>"

subsection \<open>The handlers of the inner \<open>try\<close> (lines 495 to 564)\<close>

definition timed_out :: response where
  "timed_out =
     Json 500 [(''error'',
       ''Process timed out. Free tier limit: 5 minutes processing time. Please try a smaller APK (max 150MB) or wait and retry.'')]"

definition on_timeout :: "job \<Rightarrow> world \<Rightarrow> response \<times> world" where
  "on_timeout j w =
     (timed_out, sweep_root False (rmtree (temp_dir j) (w\<lparr>cwd := original_cwd j\<rparr>)))"

definition on_exception :: "job \<Rightarrow> string \<Rightarrow> world \<Rightarrow> response \<times> world" where
  "on_exception j m w =
     (Json 500 [(''error'', ''Error running protection: '' @ m)],
      sweep_root False (rmtree (temp_dir j) (w\<lparr>cwd := original_cwd j\<rparr>)))"

subsection \<open>Loading the result and responding (lines 351 to 493)\<close>

definition download_headers :: "string \<Rightarrow> nat \<Rightarrow> (string \<times> string) list" where
  "download_headers output_filename file_size =
     [(''Content-Disposition'', ''attachment; filename=\"'' @ output_filename @ ''\"''),
      (''Content-Length'', str_nat file_size),
      (''Content-Type'', ''application/vnd.android.package-archive''),
      (''Cache-Control'', ''no-cache, no-store, must-revalidate''),
      (''Pragma'', ''no-cache''),
      (''Expires'', ''0''),
      (''Accept-Ranges'', ''bytes''),
      (''Connection'', ''keep-alive'')]"

definition empty_output :: response where
  "empty_output =
     Json 500 [(''error'', ''Protected file is empty''),
               (''details'',
                ''The protection process completed but generated an empty file. Please try again.'')]"

definition read_failed :: "read_failure \<Rightarrow> response" where
  "read_failed e =
     (case e of
        IOError m \<Rightarrow>
          Json 500 [(''error'', ''Failed to read protected file''),
                    (''details'', ''Could not read the output file: '' @ m)]
      | OtherReadError m \<Rightarrow>
          Json 500 [(''error'', ''Unexpected error reading file''), (''details'', m)])"

text \<open>
  After the signature check: the working directory is restored, the project root is swept,
  the size of the output file is taken (an exception here reaches the handler of the inner
  \<open>try\<close>), the file is read, and only when it was read and is not empty the temporary
  directory is removed and the download is returned.
\<close>

definition load_and_respond ::
  "environment \<Rightarrow> upload \<Rightarrow> job \<Rightarrow> bytes \<Rightarrow> world \<Rightarrow> response \<times> world" where
  "load_and_respond env file j file_data w =
     (let w1 = sweep_root True (w\<lparr>cwd := original_cwd j\<rparr>)
      in if getsize_error env \<noteq> None then on_exception j (the (getsize_error env)) w1
         else
           let output_filename = ''protected_'' @ secure_filename env (filename file)
           in if read_error env \<noteq> None then (read_failed (the (read_error env)), w1)
              else if file_data = [] then (empty_output, w1)
              else (Download file_data (download_headers output_filename (length file_data)),
                    sweep_root True (rmtree (temp_dir j) w1)))"

subsection \<open>Running the tool (lines 219 to 268)\<close>

text \<open>\<open>result.stderr or result.stdout\<close>.\<close>

definition protection_failed :: "string \<Rightarrow> string \<Rightarrow> response" where
  "protection_failed out_text err_text =
     Json 500 [(''error'', ''Protection failed''),
               (''details'', if err_text \<noteq> [] then err_text else out_text)]"

text \<open>\<open>result.stdout or result.stderr or 'No output file found in output directory'\<close>.\<close>

definition no_output :: "string \<Rightarrow> string \<Rightarrow> response" where
  "no_output out_text err_text =
     Json 500 [(''error'', ''No output file generated''),
               (''details'',
                if out_text \<noteq> [] then out_text
                else if err_text \<noteq> [] then err_text
                else ''No output file found in output directory'')]"

definition resolve_and_finish ::
  "environment \<Rightarrow> upload \<Rightarrow> job \<Rightarrow> string \<Rightarrow> string \<Rightarrow> world \<Rightarrow> response \<times> world" where
  "resolve_and_finish env file j out_text err_text w =
     (case find_output_files (output_dir j) (tool_output env) of
        [] \<Rightarrow> (no_output out_text err_text, w)
      | (output_file, file_data) # others \<Rightarrow>
          load_and_respond env file j file_data (verify_signature env output_file w))"

definition run_tool :: "environment \<Rightarrow> upload \<Rightarrow> job \<Rightarrow> world \<Rightarrow> response \<times> world" where
  "run_tool env file j w =
     (case subprocess_run 300 (cmd_of j) (tool_run env) w of
        (Completed rc out_text err_text, w') \<Rightarrow>
          if rc \<noteq> 0 then (protection_failed out_text err_text, w')
          else resolve_and_finish env file j out_text err_text w'
      | (TimeoutExpired, w') \<Rightarrow> on_timeout j w'
      | (FileNotFoundError m, w') \<Rightarrow> on_exception j m w'
      | (OtherException m, w') \<Rightarrow> on_exception j m w')"

subsection \<open>The handler\<close>

definition after_validation :: "environment \<Rightarrow> request \<Rightarrow> upload \<Rightarrow> world \<Rightarrow> response \<times> world" where
  "after_validation env req file w =
     (case pre_invoke env req file w of
        (Inl r, w') \<Rightarrow> (r, w')
      | (Inr j, w') \<Rightarrow> run_tool env file j w')"

definition protect_apk :: "environment \<Rightarrow> request \<Rightarrow> world \<Rightarrow> response \<times> world" where
  "protect_apk env req w =
     (case validate req of
        Inl r \<Rightarrow> (r, w)
      | Inr file \<Rightarrow> after_validation env req file w)"

subsection \<open>The options as the specification lists them\<close>

text \<open>
  The eight options in the documented order, when the caller has selected one, and the
  command-line words it stands for. These follow the words of the specification and are
  compared with \<open>build_cmd\<close> below.
\<close>

datatype tool_option =
  Debug | DisableAcf | DumpCode | KeepClasses | NoisyLog | Smaller | ExcludeAbis | ProtectConfig

definition option_order :: "tool_option list" where
  "option_order =
     [Debug, DisableAcf, DumpCode, KeepClasses, NoisyLog, Smaller, ExcludeAbis, ProtectConfig]"

fun selected :: "(string \<rightharpoonup> string) \<Rightarrow> tool_option \<Rightarrow> bool" where
  "selected fm Debug = (fm ''debug'' = Some ''true'')"
| "selected fm DisableAcf = (fm ''disable_acf'' = Some ''true'')"
| "selected fm DumpCode = (fm ''dump_code'' = Some ''true'')"
| "selected fm KeepClasses = (fm ''keep_classes'' = Some ''true'')"
| "selected fm NoisyLog = (fm ''noisy_log'' = Some ''true'')"
| "selected fm Smaller = (fm ''smaller'' = Some ''true'')"
| "selected fm ExcludeAbis = (exclude_abis fm \<noteq> [])"
| "selected fm ProtectConfig = (fm ''use_protect_config'' = Some ''true'')"

fun flag :: "environment \<Rightarrow> (string \<rightharpoonup> string) \<Rightarrow> tool_option \<Rightarrow> string list" where
  "flag env fm Debug = [''--debug'']"
| "flag env fm DisableAcf = [''--disable-acf'']"
| "flag env fm DumpCode = [''--dump-code'']"
| "flag env fm KeepClasses = [''-K'']"
| "flag env fm NoisyLog = [''--noisy-log'']"
| "flag env fm Smaller = [''-S'']"
| "flag env fm ExcludeAbis = [''-e'', exclude_abis fm]"
| "flag env fm ProtectConfig = [''-c'', config_file env]"

text \<open>One flag for every selected option, none for the others, in the documented order.\<close>

definition flags_of_selected :: "environment \<Rightarrow> (string \<rightharpoonup> string) \<Rightarrow> string list" where
  "flags_of_selected env fm =
     concat (map (\<lambda>opt. if selected fm opt then flag env fm opt else []) option_order)"

text \<open>
  An option takes effect when it is selected and, for the configuration template, the
  bundled template file exists.
\<close>

fun effective :: "environment \<Rightarrow> (string \<rightharpoonup> string) \<Rightarrow> tool_option \<Rightarrow> bool" where
  "effective env fm ProtectConfig =
     (selected fm ProtectConfig \<and> path_exists env (config_file env))"
| "effective env fm opt = selected fm opt"

definition flags_of_effective :: "environment \<Rightarrow> (string \<rightharpoonup> string) \<Rightarrow> string list" where
  "flags_of_effective env fm =
     concat (map (\<lambda>opt. if effective env fm opt then flag env fm opt else []) option_order)"

text \<open>The command runs longer than the timeout \<open>t\<close>.\<close>

fun exceeds :: "behaviour \<Rightarrow> nat \<Rightarrow> bool" where
  "exceeds (Exits d rc out_text err_text) t = (t < d)"
| "exceeds Hangs t = True"
| "exceeds (NotFound m) t = False"
| "exceeds (Raises m) t = False"

text \<open>Every file below a listing, at any depth, without regard to the order of a walk.\<close>

fun all_files :: "tree list \<Rightarrow> (string \<times> bytes) list" where
  "all_files [] = []"
| "all_files (File n b # ts) = (n, b) # all_files ts"
| "all_files (Dir n cs # ts) = all_files cs @ all_files ts"

subsection \<open>A concrete run\<close>

text \<open>
  A POSIX host with \<open>java\<close> on the search path, no Android SDK, a tool that succeeds and
  leaves one package, and an upload \<open>app.apk\<close> of two bytes, a name that
  \<open>secure_filename\<close> returns unchanged, in a body of 212 bytes. The theorems below vary
  single fields of it.
\<close>

definition example_env :: environment where
  "example_env =
     \<lparr>os_name = ''posix'', module_dir = ''/srv/app'', JAVA_HOME = None,
      ANDROID_HOME = None, ANDROID_SDK_ROOT = None, tmp_exists = True,
      gettempdir = ''/var/tmp'', mkdtemp_names = [''k3x9''], secure_filename = (\<lambda>n. n),
      path_exists = (\<lambda>p. False), makedirs_error = None, save_error = None,
      java_version_run = Exits 1 0 [] ''openjdk version 21'',
      tool_run = Exits 10 0 ''done'' [],
      tool_output = [File ''app_signed.apk'' ''PK''],
      listdir_error = None, build_tools = [],
      apksigner_run = NotFound ''apksigner'',
      jarsigner_run = Exits 1 0 ''jar verified.'' [],
      getsize_error = None, read_error = None\<rparr>"

definition example_upload :: upload where
  "example_upload = \<lparr>filename = ''app.apk'', content = ''PK''\<rparr>"

definition example_request :: request where
  "example_request =
     \<lparr>apk_file = Some example_upload, form = Map.empty, content_length = 212\<rparr>"

definition example_world :: world where
  "example_world =
     \<lparr>cwd = ''/srv/app'', dirs = [], root_items = [], children = 0, spawned = [], logged = []\<rparr>"

section \<open>Properties\<close>

subsection \<open>Auxiliary facts\<close>

lemmas string_defs = startswith_def endswith_def endswith_any_def suffix_to_prefix
  lower_def lower_char_def char_of_def bit_Suc_0_iff os_path_join_def strip_def isspace_def
  Let_def

lemmas example_defs = example_env_def example_upload_def example_request_def example_world_def

lemmas handler_defs = protect_apk_def validate_def MAX_CONTENT_LENGTH_def max_size_def
  after_validation_def
  pre_invoke_def stage_def java_check_def temp_base_def jdk_command_def build_cmd_def
  DPT_JAR_PATH_def exclude_abis_def config_file_def subprocess_run_def start_child_def
  reap_child_def run_tool_def protection_failed_def resolve_and_finish_def
  find_output_files_def os_walk_def dirnames_def nondirs_def no_output_def
  on_timeout_def on_exception_def rmtree_def below_def sweep_root_def timed_out_def

lemma pre_invoke_Inl_status:
  "pre_invoke env req file w = (Inl r, w') \<Longrightarrow> status_code r = 500"
  by (auto simp: pre_invoke_def stage_def java_check_def java_missing_def server_error_def Let_def
      split: option.splits prod.splits run_result.splits if_splits)

lemma load_and_respond_status:
  "status_code (fst (load_and_respond env file j d w)) \<noteq> 400"
  by (auto simp: load_and_respond_def on_exception_def read_failed_def empty_output_def Let_def
      split: read_failure.splits)

lemma run_tool_status:
  "status_code (fst (run_tool env file j w)) \<noteq> 400"
  by (auto simp: run_tool_def resolve_and_finish_def protection_failed_def no_output_def
        on_timeout_def timed_out_def on_exception_def load_and_respond_status
      split: prod.splits run_result.splits list.splits)

lemma after_validation_status:
  "status_code (fst (after_validation env req file w)) \<noteq> 400"
  by (auto simp: after_validation_def run_tool_status dest: pre_invoke_Inl_status
      split: prod.splits sum.splits)

lemma validation_responses_400:
  "status_code no_file_provided = 400" "status_code no_file_selected = 400"
  "status_code invalid_file_type = 400" "status_code (file_too_large n) = 400"
  "status_code already_protected = 400"
  by (simp_all add: no_file_provided_def no_file_selected_def invalid_file_type_def
        file_too_large_def already_protected_def)

lemma server_error_status: "status_code (server_error msg) = 500"
  by (simp add: server_error_def)

lemma after_validation_not_400:
  "status_code r = 400 \<Longrightarrow> fst (after_validation env req file w) \<noteq> r"
  using after_validation_status by blast

lemma responses_distinct:
  "file_too_large n \<noteq> invalid_file_type" "already_protected \<noteq> invalid_file_type"
  "no_file_selected \<noteq> invalid_file_type" "no_file_provided \<noteq> invalid_file_type"
  "already_protected \<noteq> file_too_large n" "invalid_file_type \<noteq> already_protected"
  "invalid_file_type \<noteq> file_too_large n" "no_file_selected \<noteq> file_too_large n"
  "no_file_provided \<noteq> file_too_large n" "file_too_large n \<noteq> already_protected"
  "server_error msg \<noteq> file_too_large n" "server_error msg \<noteq> invalid_file_type"
  "server_error msg \<noteq> already_protected"
  by (simp_all add: file_too_large_def invalid_file_type_def already_protected_def
        no_file_selected_def no_file_provided_def server_error_def)

lemma endswith_lower_iff:
  "endswith (lower s) e = (\<exists>stem ext. s = stem @ ext \<and> lower ext = e)"
  by (auto simp: endswith_def lower_def suffix_def map_eq_append_conv)

lemma validate_refused:
  "MAX_CONTENT_LENGTH < content_length req \<Longrightarrow>
   validate req = Inl (server_error request_entity_too_large)"
  by (simp add: validate_def)

lemma validate_parsed:
  assumes "content_length req \<le> MAX_CONTENT_LENGTH" and "apk_file req = Some file"
  shows "validate req =
     (if filename file = [] then Inl no_file_selected
      else if \<not> endswith_any (lower (filename file)) [''.apk'', ''.aab'']
        then Inl invalid_file_type
      else if max_size < length (content file) then Inl (file_too_large (length (content file)))
      else if startswith (filename file) ''protected_'' then Inl already_protected
      else Inr file)"
proof -
  from assms(1) have "\<not> MAX_CONTENT_LENGTH < content_length req"
    by simp
  with assms(2) show ?thesis
    by (simp add: validate_def Let_def)
qed

subsection \<open>The file-type check\<close>

text \<open>
  C10. For a request that the framework parses, its content length being within the
  limit of line 34, and an upload with a non-empty file name, the handler answers with
  the invalid-file-type response exactly when the lower-cased name ends neither in
  \<open>.apk\<close> nor in \<open>.aab\<close>; and the lower-cased name ends in an extension exactly when the
  name itself ends in a spelling of it in any mix of cases. So \<open>APP.APK\<close> passes the
  check, and the whole validation.
\<close>

theorem file_type_check_case_insensitive:
  assumes "content_length req \<le> MAX_CONTENT_LENGTH"
    and "apk_file req = Some file" and "filename file \<noteq> []"
  shows "(fst (protect_apk env req w) = invalid_file_type) =
           (\<not> (endswith (lower (filename file)) ''.apk''
               \<or> endswith (lower (filename file)) ''.aab''))
         \<and> (endswith (lower (filename file)) e =
              (\<exists>stem ext. filename file = stem @ ext \<and> lower ext = e))"
proof
  show "(fst (protect_apk env req w) = invalid_file_type) =
           (\<not> (endswith (lower (filename file)) ''.apk''
               \<or> endswith (lower (filename file)) ''.aab''))"
    using assms(3)
    by (auto simp: protect_apk_def validate_parsed [OF assms(1,2)] endswith_any_def
          responses_distinct after_validation_not_400 validation_responses_400)
  show "endswith (lower (filename file)) e =
          (\<exists>stem ext. filename file = stem @ ext \<and> lower ext = e)"
    by (rule endswith_lower_iff)
qed

theorem file_type_check_case_insensitive_witness:
  "fst (protect_apk example_env
         (example_request\<lparr>apk_file := Some \<lparr>filename = ''APP.APK'', content = ''PK''\<rparr>\<rparr>)
         example_world) \<noteq> invalid_file_type
   \<and> (\<exists>stem ext. ''APP.APK'' = stem @ ext \<and> lower ext = ''.apk'')
   \<and> validate (example_request\<lparr>apk_file := Some \<lparr>filename = ''APP.APK'', content = ''PK''\<rparr>\<rparr>)
       = Inr \<lparr>filename = ''APP.APK'', content = ''PK''\<rparr>"
  using file_type_check_case_insensitive
    [of "example_request\<lparr>apk_file := Some \<lparr>filename = ''APP.APK'', content = ''PK''\<rparr>\<rparr>"
        "\<lparr>filename = ''APP.APK'', content = ''PK''\<rparr>" example_env example_world "''.apk''"]
  by (simp add: example_request_def validate_def MAX_CONTENT_LENGTH_def max_size_def string_defs)

subsection \<open>The size check\<close>

text \<open>
  The too-large response of lines 78 to 81 is out of reach: whenever the declared length
  of the body is more than the length of the file in it, the answer is not that response,
  whatever the length of the file. A file of more than 150 MiB comes in a body of more
  than 150 MiB, which the framework refuses first.
\<close>

lemma too_large_response_unreachable:
  assumes "\<forall>file. apk_file req = Some file \<longrightarrow> length (content file) < content_length req"
  shows "fst (protect_apk env req w) \<noteq> file_too_large n"
proof (cases "MAX_CONTENT_LENGTH < content_length req")
  case True
  then show ?thesis
    by (simp add: protect_apk_def validate_refused responses_distinct)
next
  case False
  then have le: "content_length req \<le> MAX_CONTENT_LENGTH"
    by simp
  show ?thesis
  proof (cases "apk_file req")
    case None
    with False show ?thesis
      by (simp add: protect_apk_def validate_def responses_distinct)
  next
    case (Some f)
    with assms le have "\<not> max_size < length (content f)"
      by (simp add: MAX_CONTENT_LENGTH_def max_size_def)
    then show ?thesis
      by (simp add: protect_apk_def validate_parsed [OF le Some] responses_distinct
            after_validation_not_400 validation_responses_400)
  qed
qed

text \<open>
  C6. The claim asks for the too-large response, status 400, for every upload of more
  than 150 MiB, and for a decision taken from the bytes received. An upload \<open>big.apk\<close> of
  150 MiB and one byte, in a body of 157286601 bytes, is answered with status 500 and the
  text of the framework's exception, and so is an upload of exactly 150 MiB, whose body is
  longer than the limit, and the two bytes of \<open>app.apk\<close> under a declared length of
  200000000: the limit of line 34 is the same 150 MiB as \<open>max_size\<close> and is applied
  first, to the declared length of the body, so that the check of lines 73 to 81 and its
  response are never reached.
\<close>

theorem oversized_upload_server_error:
  "max_size < length (content \<lparr>filename = ''big.apk'', content = replicate 157286401 (CHR ''a'')\<rparr>)
   \<and> protect_apk example_env
       \<lparr>apk_file = Some \<lparr>filename = ''big.apk'', content = replicate 157286401 (CHR ''a'')\<rparr>,
        form = Map.empty, content_length = 157286601\<rparr> example_world
     = (server_error request_entity_too_large, example_world)
   \<and> server_error request_entity_too_large \<noteq> file_too_large 157286401
   \<and> status_code (server_error request_entity_too_large) = 500
   \<and> length (content \<lparr>filename = ''big.apk'', content = replicate 157286400 (CHR ''a'')\<rparr>)
       \<le> max_size
   \<and> protect_apk example_env
       \<lparr>apk_file = Some \<lparr>filename = ''big.apk'', content = replicate 157286400 (CHR ''a'')\<rparr>,
        form = Map.empty, content_length = 157286600\<rparr> example_world
     = (server_error request_entity_too_large, example_world)
   \<and> protect_apk example_env (example_request\<lparr>content_length := 200000000\<rparr>) example_world
     = (server_error request_entity_too_large, example_world)"
  by (simp add: protect_apk_def validate_def MAX_CONTENT_LENGTH_def max_size_def
        responses_distinct server_error_status)

subsection \<open>The already-protected check\<close>

text \<open>
  C8, as stated, fails: the name \<open>protected_notes.txt\<close> begins with the marker, yet the
  handler answers with the invalid-file-type response, because the marker is looked at
  last.
\<close>

theorem already_processed_counterexample:
  "startswith ''protected_notes.txt'' ''protected_''
   \<and> fst (protect_apk example_env
        (example_request\<lparr>apk_file :=
           Some \<lparr>filename = ''protected_notes.txt'', content = ''PK''\<rparr>\<rparr>)
        example_world) = invalid_file_type
   \<and> invalid_file_type \<noteq> already_protected"
  by (simp add: example_defs protect_apk_def validate_def MAX_CONTENT_LENGTH_def max_size_def
        string_defs responses_distinct)

text \<open>
  C8, amended. For every upload whose file name begins with \<open>protected_\<close> the world is
  left as it was: no directory is created and no command is run. When the request is
  within the limit of line 34, the answer has status 400 and is the response of the first
  check that fails, in the order of the source: the invalid-file-type response when the
  name has no accepted extension, else the too-large response when more than 150 MiB
  were received, else the already-protected response.
\<close>

theorem already_processed_rejected:
  assumes "apk_file req = Some file" and "startswith (filename file) ''protected_''"
  shows "snd (protect_apk env req w) = w
       \<and> (content_length req \<le> MAX_CONTENT_LENGTH \<longrightarrow>
            status_code (fst (protect_apk env req w)) = 400
            \<and> fst (protect_apk env req w) =
                (if \<not> endswith_any (lower (filename file)) [''.apk'', ''.aab'']
                   then invalid_file_type
                 else if max_size < length (content file)
                   then file_too_large (length (content file))
                 else already_protected))"
proof -
  from assms(2) have name: "filename file \<noteq> []"
    by (auto simp: startswith_def)
  show ?thesis
  proof (cases "MAX_CONTENT_LENGTH < content_length req")
    case True
    then show ?thesis
      by (simp add: protect_apk_def validate_refused)
  next
    case False
    then have le: "content_length req \<le> MAX_CONTENT_LENGTH"
      by simp
    show ?thesis
      using name assms(2)
      by (simp add: protect_apk_def validate_parsed [OF le assms(1)] validation_responses_400)
  qed
qed

theorem already_processed_rejected_witness:
  "protect_apk example_env
     (example_request\<lparr>apk_file :=
        Some \<lparr>filename = ''protected_app.apk'', content = ''PK''\<rparr>\<rparr>)
     example_world = (already_protected, example_world)
   \<and> status_code already_protected = 400"
  using already_processed_rejected
    [of "example_request\<lparr>apk_file :=
           Some \<lparr>filename = ''protected_app.apk'', content = ''PK''\<rparr>\<rparr>"
        "\<lparr>filename = ''protected_app.apk'', content = ''PK''\<rparr>"
        example_env example_world]
  by (simp add: example_request_def string_defs MAX_CONTENT_LENGTH_def max_size_def prod_eq_iff
        validation_responses_400)

subsection \<open>A tool that exits with an error\<close>

text \<open>
  C1. The claim asks that the temporary directory is gone whenever a job ends after the
  directory was created. On the concrete run with a tool that exits with code 1 the
  handler answers with status 500 while the directory, which did not exist before, still
  exists: the \<open>return\<close> of that branch has no \<open>rmtree\<close>, unlike the branches of success,
  timeout and exception.
\<close>

theorem workspace_left_after_tool_failure:
  "fst (protect_apk (example_env\<lparr>tool_run := Exits 10 1 [] ''error: bad package''\<rparr>)
          example_request example_world)
     = Json 500 [(''error'', ''Protection failed''), (''details'', ''error: bad package'')]
   \<and> ''/tmp/apk_protect_k3x9'' \<notin> set (dirs example_world)
   \<and> ''/tmp/apk_protect_k3x9'' \<in> set (dirs (snd (protect_apk
          (example_env\<lparr>tool_run := Exits 10 1 [] ''error: bad package''\<rparr>)
          example_request example_world)))"
  by (simp add: example_defs handler_defs string_defs)

text \<open>
  C2. The claim asks that the working directory after the tool was run is the one from
  before. On the same run the tool was started (its command is the second one recorded)
  and the working directory is left at the temporary directory: the \<open>return\<close> of that
  branch comes before \<open>os.chdir(original_cwd)\<close>.
\<close>

theorem cwd_not_restored_after_tool_failure:
  "cwd example_world = ''/srv/app''
   \<and> spawned (snd (protect_apk (example_env\<lparr>tool_run := Exits 10 1 [] ''error: bad package''\<rparr>)
          example_request example_world))
      = [[''java'', ''-version''],
         [''java'', ''-jar'', ''/srv/app/executable/dpt.jar'', ''-f'',
          ''/tmp/apk_protect_k3x9/app.apk'', ''-o'', ''/tmp/apk_protect_k3x9/output'']]
   \<and> cwd (snd (protect_apk (example_env\<lparr>tool_run := Exits 10 1 [] ''error: bad package''\<rparr>)
          example_request example_world)) = ''/tmp/apk_protect_k3x9''"
  by (simp add: example_defs handler_defs string_defs)

text \<open>
  C5. The claim asks for a non-empty details text whenever the tool exits with an error.
  A tool that is killed before it writes anything (return code -9, both streams empty)
  gets an empty details text: \<open>result.stderr or result.stdout\<close> has no fallback text,
  unlike the details of the no-output response.
\<close>

theorem empty_details_on_silent_failure:
  "fst (protect_apk (example_env\<lparr>tool_run := Exits 10 (- 9) [] []\<rparr>) example_request
          example_world)
     = Json 500 [(''error'', ''Protection failed''), (''details'', [])]"
  by (simp add: example_defs handler_defs string_defs)

subsection \<open>The command line of the tool\<close>

lemma subprocess_run_frame:
  "children (snd (subprocess_run t argv b w)) = children w"
  "cwd (snd (subprocess_run t argv b w)) = cwd w"
  "dirs (snd (subprocess_run t argv b w)) = dirs w"
  "root_items (snd (subprocess_run t argv b w)) = root_items w"
  "logged (snd (subprocess_run t argv b w)) = logged w"
  "spawned (snd (subprocess_run t argv b w)) = spawned w @ [argv]"
  by (simp_all add: subprocess_run_def start_child_def reap_child_def split: behaviour.splits)

lemma subprocess_run_exceeds:
  "exceeds b t \<Longrightarrow> fst (subprocess_run t argv b w) = TimeoutExpired"
  by (cases b) (simp_all add: subprocess_run_def)

lemma java_check_Inr:
  assumes "java_check env req td inp out w = (Inr j, w')"
  shows "children w' = children w \<and> dirs w' = dirs w \<and> root_items w' = root_items w
       \<and> spawned w' = spawned w @ [[jdk_command env ''java'', ''-version'']]
       \<and> cwd w' = td \<and> original_cwd j = cwd w \<and> temp_dir j = td
       \<and> input_file_path j = inp \<and> output_dir j = out
       \<and> cmd_of j = build_cmd env (form req) (jdk_command env ''java'') inp out"
proof -
  obtain r w2 where r: "subprocess_run 5 [jdk_command env ''java'', ''-version''] (java_version_run env) w = (r, w2)"
    by (cases "subprocess_run 5 [jdk_command env ''java'', ''-version''] (java_version_run env) w")
  have f: "children w2 = children w" "cwd w2 = cwd w" "dirs w2 = dirs w"
    "root_items w2 = root_items w"
    "spawned w2 = spawned w @ [[jdk_command env ''java'', ''-version'']]"
    using subprocess_run_frame [of 5 "[jdk_command env ''java'', ''-version'']" "java_version_run env" w]
    by (simp_all add: r)
  from assms r f show ?thesis
    by (cases r) (auto simp: java_check_def Let_def)
qed

lemma mkdtemp_fresh:
  "mkdtemp pre dir ns existing = Some p \<Longrightarrow> p \<notin> set existing"
  by (induction ns) (auto simp: Let_def split: if_splits)

lemma stage_Inr:
  assumes "stage env req file td w = (Inr j, w')"
  shows "children w' = children w \<and> root_items w' = root_items w
       \<and> spawned w' = spawned w @ [[jdk_command env ''java'', ''-version'']]
       \<and> cwd w' = td \<and> original_cwd j = cwd w \<and> temp_dir j = td
       \<and> dirs w' = dirs w @ [os_path_join td ''output'']
       \<and> output_dir j = os_path_join td ''output''
       \<and> input_file_path j = os_path_join td (secure_filename env (filename file))
       \<and> cmd_of j = build_cmd env (form req) (jdk_command env ''java'')
                       (input_file_path j) (output_dir j)"
proof -
  from assms have "java_check env req td
      (os_path_join td (secure_filename env (filename file))) (os_path_join td ''output'')
      (w\<lparr>dirs := dirs w @ [os_path_join td ''output'']\<rparr>) = (Inr j, w')"
    by (auto simp: stage_def Let_def split: if_splits)
  from java_check_Inr [OF this] show ?thesis
    by simp
qed

lemma pre_invoke_Inr:
  assumes "pre_invoke env req file w = (Inr j, w')"
  shows "children w' = children w \<and> root_items w' = root_items w
       \<and> spawned w' = spawned w @ [[jdk_command env ''java'', ''-version'']]
       \<and> cwd w' = temp_dir j \<and> original_cwd j = cwd w
       \<and> temp_dir j \<in> set (dirs w') \<and> temp_dir j \<notin> set (dirs w)
       \<and> output_dir j = os_path_join (temp_dir j) ''output''
       \<and> input_file_path j = os_path_join (temp_dir j) (secure_filename env (filename file))
       \<and> cmd_of j = build_cmd env (form req) (jdk_command env ''java'')
                       (input_file_path j) (output_dir j)"
proof -
  from assms obtain td where
    td: "mkdtemp ''apk_protect_'' (temp_base env) (mkdtemp_names env) (dirs w) = Some td"
    and st: "stage env req file td (w\<lparr>dirs := dirs w @ [td]\<rparr>) = (Inr j, w')"
    by (auto simp: pre_invoke_def split: option.splits)
  from stage_Inr [OF st] mkdtemp_fresh [OF td] show ?thesis
    by simp
qed

lemma rmtree_removes: "d \<notin> set (dirs (rmtree d w))"
  by (simp add: rmtree_def below_def)

lemma build_cmd_flags:
  "build_cmd env fm java_cmd inp out =
     [java_cmd, ''-jar'', DPT_JAR_PATH env, ''-f'', inp, ''-o'', out] @ flags_of_effective env fm"
  by (simp add: build_cmd_def flags_of_effective_def option_order_def Let_def)

lemma none_selected:
  assumes "\<forall>opt. \<not> selected fm opt"
  shows "flags_of_effective env fm = []"
proof -
  from assms have "\<not> selected fm Debug" "\<not> selected fm DisableAcf" "\<not> selected fm DumpCode"
    "\<not> selected fm KeepClasses" "\<not> selected fm NoisyLog" "\<not> selected fm Smaller"
    "\<not> selected fm ExcludeAbis" "\<not> selected fm ProtectConfig"
    by blast+
  then show ?thesis
    by (simp add: flags_of_effective_def option_order_def)
qed

text \<open>
  C3, as stated, fails: with \<open>use_protect_config\<close> selected on a host where the bundled
  configuration template does not exist, the option is selected and the words of the
  claim ask for the flag \<open>-c\<close> with the template path, yet the command has no optional
  part at all.
\<close>

theorem argument_vector_counterexample:
  "selected [''use_protect_config'' \<mapsto> ''true''] ProtectConfig
   \<and> flags_of_selected example_env [''use_protect_config'' \<mapsto> ''true'']
       = [''-c'', ''/srv/app/executable/dpt-protect-config-template.json'']
   \<and> build_cmd example_env [''use_protect_config'' \<mapsto> ''true''] ''java''
        ''/tmp/apk_protect_k3x9/app.apk'' ''/tmp/apk_protect_k3x9/output''
       = [''java'', ''-jar'', ''/srv/app/executable/dpt.jar'', ''-f'',
          ''/tmp/apk_protect_k3x9/app.apk'', ''-o'', ''/tmp/apk_protect_k3x9/output'']"
  by (simp add: example_defs build_cmd_def flags_of_selected_def option_order_def
        exclude_abis_def config_file_def DPT_JAR_PATH_def string_defs)

text \<open>
  C3, amended. The argument vector is the Java command, \<open>-jar\<close>, the path of the tool's
  jar, \<open>-f\<close> and the input path, \<open>-o\<close> and the output directory, and then, in the fixed
  order debug, disable-acf, dump-code, keep-classes (\<open>-K\<close>), noisy-log, smaller (\<open>-S\<close>),
  exclude-abis (\<open>-e\<close> and the stripped value), configuration template (\<open>-c\<close> and its
  path), one flag for every option that is selected, where the configuration template
  counts only when the bundled template file exists, and no flag for any other option.
  With no option selected the optional part is empty. This vector is the one the staged
  job carries and the one handed to \<open>subprocess.run\<close> for the tool.
\<close>

theorem tool_argument_vector:
  "build_cmd env fm java_cmd inp out =
     [java_cmd, ''-jar'', DPT_JAR_PATH env, ''-f'', inp, ''-o'', out] @ flags_of_effective env fm
   \<and> ((\<forall>opt. \<not> selected fm opt) \<longrightarrow>
        build_cmd env fm java_cmd inp out =
          [java_cmd, ''-jar'', DPT_JAR_PATH env, ''-f'', inp, ''-o'', out])
   \<and> (pre_invoke env req file w = (Inr j, w') \<longrightarrow>
        cmd_of j =
          [jdk_command env ''java'', ''-jar'', DPT_JAR_PATH env, ''-f'', input_file_path j,
           ''-o'', output_dir j] @ flags_of_effective env (form req)
        \<and> spawned (snd (subprocess_run 300 (cmd_of j) (tool_run env) w'))
            = spawned w' @ [cmd_of j])"
proof (intro conjI impI)
  show "build_cmd env fm java_cmd inp out =
     [java_cmd, ''-jar'', DPT_JAR_PATH env, ''-f'', inp, ''-o'', out] @ flags_of_effective env fm"
    by (rule build_cmd_flags)
next
  assume "\<forall>opt. \<not> selected fm opt"
  then show "build_cmd env fm java_cmd inp out =
          [java_cmd, ''-jar'', DPT_JAR_PATH env, ''-f'', inp, ''-o'', out]"
    by (simp add: build_cmd_flags none_selected)
next
  assume p: "pre_invoke env req file w = (Inr j, w')"
  from pre_invoke_Inr [OF p] show "cmd_of j =
          [jdk_command env ''java'', ''-jar'', DPT_JAR_PATH env, ''-f'', input_file_path j,
           ''-o'', output_dir j] @ flags_of_effective env (form req)"
    by (simp add: build_cmd_flags)
next
  show "spawned (snd (subprocess_run 300 (cmd_of j) (tool_run env) w')) = spawned w' @ [cmd_of j]"
    by (rule subprocess_run_frame)
qed

theorem tool_argument_vector_witness:
  "build_cmd example_env [''debug'' \<mapsto> ''true'', ''exclude_abis'' \<mapsto> '' x86,x86_64 '',
        ''smaller'' \<mapsto> ''true''] ''java''
        ''/tmp/apk_protect_k3x9/app.apk'' ''/tmp/apk_protect_k3x9/output''
     = [''java'', ''-jar'', ''/srv/app/executable/dpt.jar'', ''-f'',
        ''/tmp/apk_protect_k3x9/app.apk'', ''-o'', ''/tmp/apk_protect_k3x9/output'',
        ''--debug'', ''-S'', ''-e'', ''x86,x86_64'']
   \<and> (\<forall>opt. \<not> selected Map.empty opt)
   \<and> build_cmd example_env Map.empty ''java''
        ''/tmp/apk_protect_k3x9/app.apk'' ''/tmp/apk_protect_k3x9/output''
     = [''java'', ''-jar'', ''/srv/app/executable/dpt.jar'', ''-f'',
        ''/tmp/apk_protect_k3x9/app.apk'', ''-o'', ''/tmp/apk_protect_k3x9/output'']"
proof -
  have none: "\<forall>opt. \<not> selected Map.empty opt"
  proof
    fix opt show "\<not> selected Map.empty opt"
      by (cases opt) (simp_all add: exclude_abis_def strip_def)
  qed
  show ?thesis
    using none
      tool_argument_vector [of example_env "[''debug'' \<mapsto> ''true'',
        ''exclude_abis'' \<mapsto> '' x86,x86_64 '', ''smaller'' \<mapsto> ''true'']" "''java''"
        "''/tmp/apk_protect_k3x9/app.apk''" "''/tmp/apk_protect_k3x9/output''"]
      tool_argument_vector [of example_env Map.empty "''java''"
        "''/tmp/apk_protect_k3x9/app.apk''" "''/tmp/apk_protect_k3x9/output''"]
    by (simp add: example_defs flags_of_effective_def option_order_def exclude_abis_def
          config_file_def DPT_JAR_PATH_def string_defs)
qed

subsection \<open>A tool that runs too long\<close>

lemma run_tool_timeout:
  assumes "exceeds (tool_run env) 300"
  shows "run_tool env file j w =
           on_timeout j (snd (subprocess_run 300 (cmd_of j) (tool_run env) w))"
  using subprocess_run_exceeds [OF assms, of "cmd_of j" w]
  by (cases "subprocess_run 300 (cmd_of j) (tool_run env) w") (simp add: run_tool_def)

lemma on_timeout_frame:
  "fst (on_timeout j w) = timed_out"
  "children (snd (on_timeout j w)) = children w"
  "cwd (snd (on_timeout j w)) = original_cwd j"
  "temp_dir j \<notin> set (dirs (snd (on_timeout j w)))"
  "spawned (snd (on_timeout j w)) = spawned w"
  by (simp_all add: on_timeout_def sweep_root_def rmtree_def below_def)

text \<open>
  C4. When a validated request has been staged and the tool runs longer than 300 time
  units (or never exits), the handler answers with the timed-out response, status 500,
  the number of child processes alive is the one from before the request, the tool's child
  having been killed and waited for by \<open>subprocess.run\<close>, and the last command started is
  the tool's.
\<close>

theorem tool_timeout:
  assumes "validate req = Inr file"
    and "pre_invoke env req file w = (Inr j, w1)"
    and "exceeds (tool_run env) 300"
  shows "fst (protect_apk env req w) = timed_out
       \<and> status_code timed_out = 500
       \<and> children (snd (protect_apk env req w)) = children w
       \<and> last (spawned (snd (protect_apk env req w))) = cmd_of j"
proof -
  have p: "protect_apk env req w =
      on_timeout j (snd (subprocess_run 300 (cmd_of j) (tool_run env) w1))"
    using assms by (simp add: protect_apk_def after_validation_def run_tool_timeout)
  from pre_invoke_Inr [OF assms(2)] have c: "children w1 = children w"
    by simp
  show ?thesis
    by (simp add: p on_timeout_frame subprocess_run_frame c timed_out_def)
qed

theorem tool_timeout_witness:
  "protect_apk (example_env\<lparr>tool_run := Exits 301 0 ''done'' []\<rparr>) example_request example_world
     = (timed_out,
        \<lparr>cwd = ''/srv/app'', dirs = [], root_items = [], children = 0,
         spawned = [[''java'', ''-version''],
           [''java'', ''-jar'', ''/srv/app/executable/dpt.jar'', ''-f'',
            ''/tmp/apk_protect_k3x9/app.apk'', ''-o'', ''/tmp/apk_protect_k3x9/output'']],
         logged = []\<rparr>)
   \<and> fst (protect_apk (example_env\<lparr>tool_run := Exits 300 0 ''done'' []\<rparr>) example_request
          example_world) \<noteq> timed_out"
proof -
  have v: "validate example_request = Inr example_upload"
    by (simp add: example_defs validate_def MAX_CONTENT_LENGTH_def max_size_def string_defs)
  have p: "pre_invoke (example_env\<lparr>tool_run := Exits 301 0 ''done'' []\<rparr>) example_request
      example_upload example_world =
      (Inr \<lparr>temp_dir = ''/tmp/apk_protect_k3x9'',
            input_file_path = ''/tmp/apk_protect_k3x9/app.apk'',
            output_dir = ''/tmp/apk_protect_k3x9/output'',
            cmd_of = [''java'', ''-jar'', ''/srv/app/executable/dpt.jar'', ''-f'',
              ''/tmp/apk_protect_k3x9/app.apk'', ''-o'', ''/tmp/apk_protect_k3x9/output''],
            original_cwd = ''/srv/app''\<rparr>,
       \<lparr>cwd = ''/tmp/apk_protect_k3x9'',
        dirs = [''/tmp/apk_protect_k3x9'', ''/tmp/apk_protect_k3x9/output''],
        root_items = [], children = 0, spawned = [[''java'', ''-version'']], logged = []\<rparr>)"
    by (simp add: example_defs handler_defs string_defs)
  have e: "exceeds (tool_run (example_env\<lparr>tool_run := Exits 301 0 ''done'' []\<rparr>)) 300"
    by simp
  have a: "protect_apk (example_env\<lparr>tool_run := Exits 301 0 ''done'' []\<rparr>) example_request
      example_world = (timed_out,
        \<lparr>cwd = ''/srv/app'', dirs = [], root_items = [], children = 0,
         spawned = [[''java'', ''-version''],
           [''java'', ''-jar'', ''/srv/app/executable/dpt.jar'', ''-f'',
            ''/tmp/apk_protect_k3x9/app.apk'', ''-o'', ''/tmp/apk_protect_k3x9/output'']],
         logged = []\<rparr>)"
    using tool_timeout [OF v p e]
    by (simp add: example_defs handler_defs string_defs)
  have b: "fst (protect_apk (example_env\<lparr>tool_run := Exits 300 0 ''done'' []\<rparr>) example_request
          example_world) \<noteq> timed_out"
    by (simp add: example_defs handler_defs string_defs verify_signature_def find_apksigner_def
          android_home_def jarsigner_attempt_def logmsg_def load_and_respond_def)
  from a b show ?thesis by simp
qed

subsection \<open>Finding the output file\<close>

lemma nondirs_simps:
  "nondirs [] = []"
  "nondirs (File n b # ts) = (n, b) # nondirs ts"
  "nondirs (Dir n cs # ts) = nondirs ts"
  by (simp_all add: nondirs_def)

lemma subwalks_files:
  "(\<Union>(r, ds, fs) \<in> set (subwalks root entries). set fs) \<union> set (nondirs entries)
     = set (all_files entries)"
  by (induction root entries rule: subwalks.induct) (auto simp: nondirs_simps)

lemma os_walk_files:
  "(\<Union>(r, ds, fs) \<in> set (os_walk root entries). set fs) = set (all_files entries)"
  using subwalks_files [of root entries] by (auto simp: os_walk_def)

lemma os_walk_ball:
  "(\<forall>t \<in> set (os_walk out entries). \<forall>x \<in> set (snd (snd t)). Q x) =
     (\<forall>x \<in> set (all_files entries). Q x)"
proof -
  have "set (all_files entries) = (\<Union>t \<in> set (os_walk out entries). set (snd (snd t)))"
    using os_walk_files [of out entries] by (simp add: split_def)
  then show ?thesis
    by blast
qed

lemma find_output_files_empty_iff:
  "(find_output_files out entries = []) =
     (\<forall>(n, b) \<in> set (all_files entries). \<not> endswith_any n [''.apk'', ''.aab''])"
proof -
  have "(find_output_files out entries = []) =
     (\<forall>t \<in> set (os_walk out entries). \<forall>x \<in> set (snd (snd t)).
        \<not> endswith_any (fst x) [''.apk'', ''.aab''])"
    by (simp add: find_output_files_def filter_empty_conv split_def)
  also have "\<dots> =
     (\<forall>x \<in> set (all_files entries). \<not> endswith_any (fst x) [''.apk'', ''.aab''])"
    by (rule os_walk_ball)
  finally show ?thesis
    by (simp add: split_def)
qed

lemma find_output_files_order:
  "find_output_files out entries =
     map (\<lambda>(f, b). (os_path_join out f, b))
       (filter (\<lambda>(f, b). endswith_any f [''.apk'', ''.aab'']) (nondirs entries))
     @ concat (map (\<lambda>(root, ds, files).
          map (\<lambda>(f, b). (os_path_join root f, b))
            (filter (\<lambda>(f, b). endswith_any f [''.apk'', ''.aab'']) files))
         (subwalks out entries))"
  by (simp add: find_output_files_def os_walk_def)

lemma load_and_respond_not_no_output:
  "fst (load_and_respond env file j d w) \<noteq> no_output out_text err_text"
  by (auto simp: load_and_respond_def on_exception_def read_failed_def empty_output_def
        no_output_def Let_def split: read_failure.splits)

lemma status_no_output: "status_code (no_output out_text err_text) = 500"
  by (simp add: no_output_def)

lemma run_tool_completed:
  assumes "tool_run env = Exits d rc out_text err_text" and "d \<le> 300"
  shows "run_tool env file j w =
     (if rc \<noteq> 0
      then (protection_failed out_text err_text,
            snd (subprocess_run 300 (cmd_of j) (tool_run env) w))
      else resolve_and_finish env file j out_text err_text
             (snd (subprocess_run 300 (cmd_of j) (tool_run env) w)))"
  using assms by (simp add: run_tool_def subprocess_run_def)

text \<open>
  C7. When a validated, staged request has run the tool and the tool exited with code 0
  in time, the handler answers with the no-output response (status 500) exactly when the
  walk of the output directory finds no file whose name ends in \<open>.apk\<close> or \<open>.aab\<close>, which
  is exactly when no file at any depth below the output directory has such a name.
  Otherwise the file that is checked, read and returned is the first one of the walk: the
  files of a directory in listing order, before those of its subdirectories
  (\<open>find_output_files_order\<close>), with no regard to name, size or time.
\<close>

theorem output_resolution:
  assumes "validate req = Inr file"
    and "pre_invoke env req file w = (Inr j, w1)"
    and "tool_run env = Exits d 0 out_text err_text" and "d \<le> 300"
  shows "(fst (protect_apk env req w) = no_output out_text err_text) =
           (find_output_files (output_dir j) (tool_output env) = [])
       \<and> status_code (no_output out_text err_text) = 500
       \<and> (find_output_files (output_dir j) (tool_output env) = []) =
           (\<forall>(n, b) \<in> set (all_files (tool_output env)).
              \<not> endswith_any n [''.apk'', ''.aab''])
       \<and> (find_output_files (output_dir j) (tool_output env) \<noteq> [] \<longrightarrow>
            protect_apk env req w =
              load_and_respond env file j
                (snd (hd (find_output_files (output_dir j) (tool_output env))))
                (verify_signature env
                   (fst (hd (find_output_files (output_dir j) (tool_output env))))
                   (snd (subprocess_run 300 (cmd_of j) (tool_run env) w1))))"
proof -
  have p: "protect_apk env req w =
      resolve_and_finish env file j out_text err_text
        (snd (subprocess_run 300 (cmd_of j) (tool_run env) w1))"
    using assms by (simp add: protect_apk_def after_validation_def run_tool_completed)
  have third: "(find_output_files (output_dir j) (tool_output env) = []) =
           (\<forall>(n, b) \<in> set (all_files (tool_output env)).
              \<not> endswith_any n [''.apk'', ''.aab''])"
    by (rule find_output_files_empty_iff)
  have rest: "(fst (protect_apk env req w) = no_output out_text err_text) =
           (find_output_files (output_dir j) (tool_output env) = [])
       \<and> status_code (no_output out_text err_text) = 500
       \<and> (find_output_files (output_dir j) (tool_output env) \<noteq> [] \<longrightarrow>
            protect_apk env req w =
              load_and_respond env file j
                (snd (hd (find_output_files (output_dir j) (tool_output env))))
                (verify_signature env
                   (fst (hd (find_output_files (output_dir j) (tool_output env))))
                   (snd (subprocess_run 300 (cmd_of j) (tool_run env) w1))))"
  proof (cases "find_output_files (output_dir j) (tool_output env)")
    case Nil
    then show ?thesis
      by (simp add: p resolve_and_finish_def status_no_output)
  next
    case (Cons c cs)
    then show ?thesis
      by (cases c)
        (simp add: p resolve_and_finish_def load_and_respond_not_no_output status_no_output)
  qed
  from third rest show ?thesis
    by blast
qed

theorem output_resolution_witness:
  "find_output_files ''/tmp/apk_protect_k3x9/output''
       [Dir ''a'' [File ''x.apk'' ''11''], File ''z.apk'' ''PK'', File ''a.apk'' ''333'']
     = [(''/tmp/apk_protect_k3x9/output/z.apk'', ''PK''),
        (''/tmp/apk_protect_k3x9/output/a.apk'', ''333''),
        (''/tmp/apk_protect_k3x9/output/a/x.apk'', ''11'')]
   \<and> fst (protect_apk
          (example_env\<lparr>tool_output :=
             [Dir ''a'' [File ''x.apk'' ''11''], File ''z.apk'' ''PK'', File ''a.apk'' ''333'']\<rparr>)
          example_request example_world)
       = Download ''PK'' (download_headers ''protected_app.apk'' (length ''PK''))
   \<and> fst (protect_apk
          (example_env\<lparr>tool_output := [File ''notes.txt'' ''n'', Dir ''d'' [File ''APP.APK'' ''PK'']]\<rparr>)
          example_request example_world)
       = no_output ''done'' []"
proof -
  let ?env1 = "example_env\<lparr>tool_output :=
     [Dir ''a'' [File ''x.apk'' ''11''], File ''z.apk'' ''PK'', File ''a.apk'' ''333'']\<rparr>"
  let ?env2 = "example_env\<lparr>tool_output :=
     [File ''notes.txt'' ''n'', Dir ''d'' [File ''APP.APK'' ''PK'']]\<rparr>"
  let ?j = "\<lparr>temp_dir = ''/tmp/apk_protect_k3x9'',
            input_file_path = ''/tmp/apk_protect_k3x9/app.apk'',
            output_dir = ''/tmp/apk_protect_k3x9/output'',
            cmd_of = [''java'', ''-jar'', ''/srv/app/executable/dpt.jar'', ''-f'',
              ''/tmp/apk_protect_k3x9/app.apk'', ''-o'', ''/tmp/apk_protect_k3x9/output''],
            original_cwd = ''/srv/app''\<rparr>"
  let ?w1 = "\<lparr>cwd = ''/tmp/apk_protect_k3x9'',
        dirs = [''/tmp/apk_protect_k3x9'', ''/tmp/apk_protect_k3x9/output''],
        root_items = [], children = 0, spawned = [[''java'', ''-version'']], logged = []\<rparr>"
  have v: "validate example_request = Inr example_upload"
    by (simp add: example_defs validate_def MAX_CONTENT_LENGTH_def max_size_def string_defs)
  have p1: "pre_invoke ?env1 example_request example_upload example_world = (Inr ?j, ?w1)"
    by (simp add: example_defs handler_defs string_defs)
  have p2: "pre_invoke ?env2 example_request example_upload example_world = (Inr ?j, ?w1)"
    by (simp add: example_defs handler_defs string_defs)
  have t1: "tool_run ?env1 = Exits 10 0 ''done'' []"
    by (simp add: example_defs)
  have t2: "tool_run ?env2 = Exits 10 0 ''done'' []"
    by (simp add: example_defs)
  have d: "(10::nat) \<le> 300"
    by simp
  have f1: "find_output_files ''/tmp/apk_protect_k3x9/output''
       [Dir ''a'' [File ''x.apk'' ''11''], File ''z.apk'' ''PK'', File ''a.apk'' ''333'']
     = [(''/tmp/apk_protect_k3x9/output/z.apk'', ''PK''),
        (''/tmp/apk_protect_k3x9/output/a.apk'', ''333''),
        (''/tmp/apk_protect_k3x9/output/a/x.apk'', ''11'')]"
    by (simp add: find_output_files_def os_walk_def dirnames_def nondirs_def string_defs)
  have f2: "find_output_files ''/tmp/apk_protect_k3x9/output''
       [File ''notes.txt'' ''n'', Dir ''d'' [File ''APP.APK'' ''PK'']] = []"
    by (simp add: find_output_files_def os_walk_def dirnames_def nondirs_def string_defs)
  have r1: "fst (protect_apk ?env1 example_request example_world)
       = Download ''PK'' (download_headers ''protected_app.apk'' (length ''PK''))"
    using output_resolution [OF v p1 t1 d]
    by (simp add: f1 load_and_respond_def example_defs)
  have r2: "fst (protect_apk ?env2 example_request example_world) = no_output ''done'' []"
    using output_resolution [OF v p2 t2 d]
    by (simp add: f2)
  from f1 r1 r2 show ?thesis
    by simp
qed

subsection \<open>The signature check\<close>

lemma logmsg_frame:
  "cwd (logmsg l m w) = cwd w" "dirs (logmsg l m w) = dirs w"
  "root_items (logmsg l m w) = root_items w" "children (logmsg l m w) = children w"
  "l \<noteq> ERROR \<Longrightarrow>
     filter (\<lambda>e. fst e = ERROR) (logged (logmsg l m w)) = filter (\<lambda>e. fst e = ERROR) (logged w)"
  by (simp_all add: logmsg_def)

lemma apksigner_attempt_frame:
  "cwd (snd (apksigner_attempt env c f w)) = cwd w"
  "dirs (snd (apksigner_attempt env c f w)) = dirs w"
  "root_items (snd (apksigner_attempt env c f w)) = root_items w"
  "children (snd (apksigner_attempt env c f w)) = children w"
  "filter (\<lambda>e. fst e = ERROR) (logged (snd (apksigner_attempt env c f w)))
     = filter (\<lambda>e. fst e = ERROR) (logged w)"
  using subprocess_run_frame
    [of 30 "[c, ''verify'', ''--print-certs'', f]" "apksigner_run env" w]
  by (cases "subprocess_run 30 [c, ''verify'', ''--print-certs'', f] (apksigner_run env) w";
      cases "fst (subprocess_run 30 [c, ''verify'', ''--print-certs'', f] (apksigner_run env) w)";
      simp add: apksigner_attempt_def logmsg_frame)+

lemma jarsigner_attempt_frame:
  "cwd (snd (jarsigner_attempt env c f w)) = cwd w"
  "dirs (snd (jarsigner_attempt env c f w)) = dirs w"
  "root_items (snd (jarsigner_attempt env c f w)) = root_items w"
  "children (snd (jarsigner_attempt env c f w)) = children w"
  "filter (\<lambda>e. fst e = ERROR) (logged (snd (jarsigner_attempt env c f w)))
     = filter (\<lambda>e. fst e = ERROR) (logged w)"
  using subprocess_run_frame
    [of 30 "[c, ''-verify'', ''-verbose'', ''-certs'', f]" "jarsigner_run env" w]
  by (cases "subprocess_run 30 [c, ''-verify'', ''-verbose'', ''-certs'', f] (jarsigner_run env) w";
      cases "fst (subprocess_run 30 [c, ''-verify'', ''-verbose'', ''-certs'', f] (jarsigner_run env) w)";
      simp add: jarsigner_attempt_def logmsg_frame)+

lemma signature_warning_frame:
  "cwd (signature_warning w) = cwd w" "dirs (signature_warning w) = dirs w"
  "root_items (signature_warning w) = root_items w" "children (signature_warning w) = children w"
  "filter (\<lambda>e. fst e = ERROR) (logged (signature_warning w))
     = filter (\<lambda>e. fst e = ERROR) (logged w)"
  by (simp_all add: signature_warning_def logmsg_def)

lemma verify_signature_frame:
  "cwd (verify_signature env f w) = cwd w"
  "dirs (verify_signature env f w) = dirs w"
  "root_items (verify_signature env f w) = root_items w"
  "children (verify_signature env f w) = children w"
  "filter (\<lambda>e. fst e = ERROR) (logged (verify_signature env f w))
     = filter (\<lambda>e. fst e = ERROR) (logged w)"
  by (auto simp: verify_signature_def Let_def logmsg_frame apksigner_attempt_frame
        jarsigner_attempt_frame signature_warning_frame split_def
      split: sum.splits option.splits)

lemma load_and_respond_response:
  "fst (load_and_respond env file j d w) =
     (if getsize_error env \<noteq> None
      then Json 500 [(''error'', ''Error running protection: '' @ the (getsize_error env))]
      else if read_error env \<noteq> None then read_failed (the (read_error env))
      else if d = [] then empty_output
      else Download d (download_headers (''protected_'' @ secure_filename env (filename file))
             (length d)))"
  by (simp add: load_and_respond_def on_exception_def Let_def)

text \<open>
  C9. When a validated, staged request has run the tool, the tool has exited with code 0
  in time and the walk has found an output file, the handler goes on to load that file
  and to respond, whatever becomes of the signature check: no Android SDK, a listing of
  its \<open>build-tools\<close> that raises, an \<open>apksigner\<close> or a \<open>jarsigner\<close> that is not found,
  raises, runs longer than 30 time units, exits with an error or does not report
  \<open>jar verified\<close>. The response is the one that loading the file gives, and nothing of
  the signature check occurs in it. In any world the check adds no log record of level
  \<open>ERROR\<close>, leaves as many child processes as it found, and changes neither the working
  directory nor the directories.
\<close>

theorem verification_never_fails_job:
  assumes "validate req = Inr file"
    and "pre_invoke env req file w = (Inr j, w1)"
    and "tool_run env = Exits d 0 out_text err_text" and "d \<le> 300"
    and "find_output_files (output_dir j) (tool_output env) = (output_file, file_data) # others"
  shows "protect_apk env req w =
           load_and_respond env file j file_data
             (verify_signature env output_file
                (snd (subprocess_run 300 (cmd_of j) (tool_run env) w1)))
       \<and> fst (protect_apk env req w) =
           (if getsize_error env \<noteq> None
            then Json 500 [(''error'', ''Error running protection: '' @ the (getsize_error env))]
            else if read_error env \<noteq> None then read_failed (the (read_error env))
            else if file_data = [] then empty_output
            else Download file_data
                   (download_headers (''protected_'' @ secure_filename env (filename file))
                      (length file_data)))
       \<and> filter (\<lambda>e. fst e = ERROR) (logged (verify_signature env output_file w2))
           = filter (\<lambda>e. fst e = ERROR) (logged w2)
       \<and> children (verify_signature env output_file w2) = children w2
       \<and> cwd (verify_signature env output_file w2) = cwd w2
       \<and> dirs (verify_signature env output_file w2) = dirs w2
       \<and> root_items (verify_signature env output_file w2) = root_items w2"
proof -
  have p: "protect_apk env req w =
      resolve_and_finish env file j out_text err_text
        (snd (subprocess_run 300 (cmd_of j) (tool_run env) w1))"
    using assms(1-4) by (simp add: protect_apk_def after_validation_def run_tool_completed)
  have q: "protect_apk env req w =
           load_and_respond env file j file_data
             (verify_signature env output_file
                (snd (subprocess_run 300 (cmd_of j) (tool_run env) w1)))"
    by (simp add: p resolve_and_finish_def assms(5))
  show ?thesis
    apply (intro conjI)
          apply (rule q)
         apply (simp only: q load_and_respond_response)
        apply (rule verify_signature_frame)+
    done
qed

theorem verification_never_fails_job_witness:
  "fst (protect_apk (example_env\<lparr>jarsigner_run := Hangs\<rparr>) example_request example_world)
     = Download ''PK'' (download_headers ''protected_app.apk'' (length ''PK''))
   \<and> logged (snd (protect_apk (example_env\<lparr>jarsigner_run := Hangs\<rparr>) example_request
        example_world))
     = [(INFO, ''Verifying APK signature...''),
        (WARNING, ''Could not verify with jarsigner: {e}''),
        (WARNING, replicate 60 (CHR ''='')),
        (WARNING, ''APK SIGNATURE WARNING''),
        (WARNING, replicate 60 (CHR ''='')),
        (WARNING, ''The protected APK may not be properly signed.''),
        (WARNING, ''This can cause 'package appears to be invalid' error on Android.''),
        (WARNING, ''dpt.jar should sign the APK by default, but verification failed.''),
        (WARNING, replicate 60 (CHR ''=''))]"
proof -
  let ?env = "example_env\<lparr>jarsigner_run := Hangs\<rparr>"
  let ?j = "\<lparr>temp_dir = ''/tmp/apk_protect_k3x9'',
            input_file_path = ''/tmp/apk_protect_k3x9/app.apk'',
            output_dir = ''/tmp/apk_protect_k3x9/output'',
            cmd_of = [''java'', ''-jar'', ''/srv/app/executable/dpt.jar'', ''-f'',
              ''/tmp/apk_protect_k3x9/app.apk'', ''-o'', ''/tmp/apk_protect_k3x9/output''],
            original_cwd = ''/srv/app''\<rparr>"
  let ?w1 = "\<lparr>cwd = ''/tmp/apk_protect_k3x9'',
        dirs = [''/tmp/apk_protect_k3x9'', ''/tmp/apk_protect_k3x9/output''],
        root_items = [], children = 0, spawned = [[''java'', ''-version'']], logged = []\<rparr>"
  have v: "validate example_request = Inr example_upload"
    by (simp add: example_defs validate_def MAX_CONTENT_LENGTH_def max_size_def string_defs)
  have p: "pre_invoke ?env example_request example_upload example_world = (Inr ?j, ?w1)"
    by (simp add: example_defs handler_defs string_defs)
  have t: "tool_run ?env = Exits 10 0 ''done'' []"
    by (simp add: example_defs)
  have d: "(10::nat) \<le> 300"
    by simp
  have f: "find_output_files (output_dir ?j) (tool_output ?env)
     = (''/tmp/apk_protect_k3x9/output/app_signed.apk'', ''PK'') # []"
    by (simp add: example_defs find_output_files_def os_walk_def dirnames_def nondirs_def
          string_defs)
  have g: "getsize_error ?env = None" "read_error ?env = None" "secure_filename ?env = (\<lambda>n. n)"
    by (simp_all add: example_defs)
  note r = verification_never_fails_job [OF v p t d f]
  have r1: "fst (protect_apk ?env example_request example_world)
     = Download ''PK'' (download_headers ''protected_app.apk'' (length ''PK''))"
    using r [THEN conjunct2, THEN conjunct1] by (simp add: g example_upload_def)
  have r2: "logged (snd (protect_apk ?env example_request example_world))
     = [(INFO, ''Verifying APK signature...''),
        (WARNING, ''Could not verify with jarsigner: {e}''),
        (WARNING, replicate 60 (CHR ''='')),
        (WARNING, ''APK SIGNATURE WARNING''),
        (WARNING, replicate 60 (CHR ''='')),
        (WARNING, ''The protected APK may not be properly signed.''),
        (WARNING, ''This can cause 'package appears to be invalid' error on Android.''),
        (WARNING, ''dpt.jar should sign the APK by default, but verification failed.''),
        (WARNING, replicate 60 (CHR ''=''))]"
    using r [THEN conjunct1]
    by (simp add: g t example_defs load_and_respond_def verify_signature_def find_apksigner_def
          android_home_def jdk_command_def jarsigner_attempt_def subprocess_run_def
          start_child_def reap_child_def logmsg_def signature_warning_def sweep_root_def
          rmtree_def below_def Let_def)
  from r1 r2 show ?thesis
    by simp
qed

end
